theory Spec2Isabelle
  imports Main "HOL-Library.Word"
begin

section \<open>The calendar client \<^verbatim>\<open>static/app.js\<close>\<close>

text \<open>
  The client is modelled as the handlers it installs, each a function from the page state
  and the handler's inputs to the new state and the list of things it did (an alert, a
  prompt, the opening of the confirmation, a request, a call into the calendar). An
  \<^verbatim>\<open>async\<close> handler is cut at each \<^verbatim>\<open>await\<close>: the part before it
  registers who waits (the two click handlers of the confirmation, the requests in flight),
  the part after it runs when the click or the response comes. What \<^verbatim>\<open>prompt\<close>
  returns is an argument of the handler, \<open>None\<close> for \<^verbatim>\<open>null\<close>.

  Left out: \<^verbatim>\<open>buildLegend\<close> and the loading of the user list by \<^verbatim>\<open>init\<close>
  (the state starts once \<^verbatim>\<open>init\<close> has installed the login and logout handlers);
  the URL and JSON encodings (a request keeps its target and its body as values, and only
  the \<^verbatim>\<open>URIError\<close> of \<^verbatim>\<open>encodeURIComponent\<close> is kept of them); JSON
  values that are not strings where the client reads a string; the check \<^verbatim>\<open>fetch\<close>
  makes of a header value (the token is taken to be a legal one).
\<close>

section \<open>JavaScript values read by the client\<close>

text \<open>
  A JavaScript string is a sequence of UTF-16 code units. The literals of
  \<^verbatim>\<open>static/app.js\<close> are written out as their code units; the Korean ones are
  named after what they say.
\<close>

type_synonym jsstring = "16 word list"

text \<open>
  \<^verbatim>\<open>String.prototype.trim\<close> removes the ECMAScript WhiteSpace and LineTerminator code
  points from both ends: TAB, LF, VT, FF, CR, SPACE, NBSP, U+1680, U+2000..U+200A, U+2028,
  U+2029, U+202F, U+205F, U+3000 and U+FEFF.
\<close>

definition is_white_space :: "16 word \<Rightarrow> bool" where
  "is_white_space c =
     (c = 0x9 \<or> c = 0xA \<or> c = 0xB \<or> c = 0xC \<or> c = 0xD \<or> c = 0x20 \<or> c = 0xA0
      \<or> c = 0x1680 \<or> (0x2000 \<le> c \<and> c \<le> 0x200A) \<or> c = 0x2028 \<or> c = 0x2029
      \<or> c = 0x202F \<or> c = 0x205F \<or> c = 0x3000 \<or> c = 0xFEFF)"

definition trim :: "jsstring \<Rightarrow> jsstring" where
  "trim s = rev (dropWhile is_white_space (rev (dropWhile is_white_space s)))"

text \<open>
  \<^verbatim>\<open>encodeURIComponent\<close> throws a \<^verbatim>\<open>URIError\<close> on a string that is not
  well-formed UTF-16: one with a high surrogate (U+D800..U+DBFF) not followed by a low one
  (U+DC00..U+DFFF), or a low surrogate not preceded by a high one.
\<close>

definition is_high_surrogate :: "16 word \<Rightarrow> bool" where
  "is_high_surrogate c = (0xD800 \<le> c \<and> c \<le> 0xDBFF)"

definition is_low_surrogate :: "16 word \<Rightarrow> bool" where
  "is_low_surrogate c = (0xDC00 \<le> c \<and> c \<le> 0xDFFF)"

fun well_formed :: "jsstring \<Rightarrow> bool" where
  "well_formed [] = True"
| "well_formed [c] = (\<not> is_high_surrogate c \<and> \<not> is_low_surrogate c)"
| "well_formed (c # d # cs) =
     (if is_high_surrogate c then is_low_surrogate d \<and> well_formed cs
      else \<not> is_low_surrogate c \<and> well_formed (d # cs))"

text \<open>
  A property that may be missing (or a variable that may be \<^verbatim>\<open>null\<close>) is a
  \<open>jsstring option\<close>. It is truthy when it is a non-empty string; \<^verbatim>\<open>a || b\<close> is
  \<open>js_or\<close>, and \<^verbatim>\<open>a || "literal"\<close> is \<open>or_default\<close>. A template literal prints a
  missing value as the text \<^verbatim>\<open>undefined\<close>.
\<close>

definition truthy :: "jsstring option \<Rightarrow> bool" where
  "truthy v = (case v of None \<Rightarrow> False | Some s \<Rightarrow> s \<noteq> [])"

definition js_or :: "jsstring option \<Rightarrow> jsstring option \<Rightarrow> jsstring option" where
  "js_or a b = (if truthy a then a else b)"

definition or_default :: "jsstring option \<Rightarrow> jsstring \<Rightarrow> jsstring" where
  "or_default v d = (case v of None \<Rightarrow> d | Some s \<Rightarrow> if s \<noteq> [] then s else d)"

definition undefined_text :: jsstring where
  "undefined_text = [0x75, 0x6E, 0x64, 0x65, 0x66, 0x69, 0x6E, 0x65, 0x64]"

definition to_string :: "jsstring option \<Rightarrow> jsstring" where
  "to_string v = (case v of None \<Rightarrow> undefined_text | Some s \<Rightarrow> s)"

subsection \<open>The literals of the source\<close>

definition request_failed_msg :: jsstring where
  \<comment> \<open>line 15, Korean for "request failed"\<close>
  "request_failed_msg = [0xC694, 0xCCAD, 0x20, 0xC2E4, 0xD328]"

definition cancel_msg :: jsstring where
  \<comment> \<open>lines 37, 189 and 248, Korean for "cancel"\<close>
  "cancel_msg = [0xCDE8, 0xC18C]"

definition default_modal_title :: jsstring where
  "default_modal_title = [0xC554, 0xD638, 0x20, 0xD655, 0xC778]"

definition add_modal_title :: jsstring where
  "add_modal_title = [0xC77C, 0xC815, 0x20, 0xCD94, 0xAC00, 0x3A, 0x20, 0xC218, 0xC815, 0x20,
     0xC554, 0xD638, 0x20, 0xD655, 0xC778]"

definition add_modal_foot :: jsstring where
  "add_modal_foot = [0xCD94, 0xAC00, 0xB3C4, 0x20, 0x2018, 0xC218, 0xC815, 0xAD8C, 0xD55C,
     0x2019, 0xC774, 0xB77C, 0x20, 0xC554, 0xD638, 0x20, 0xD544, 0xC694, 0x2E, 0x20, 0xB124,
     0x20, 0xADDC, 0xCE59, 0xC774, 0xB2C8, 0xAE4C, 0x2E]"

definition delete_modal_title :: jsstring where
  "delete_modal_title = [0xC0AD, 0xC81C, 0x3A, 0x20, 0xC218, 0xC815, 0x20, 0xC554, 0xD638,
     0x20, 0xD655, 0xC778]"

definition delete_modal_foot :: jsstring where
  "delete_modal_foot = [0xC0AD, 0xC81C, 0xB294, 0x20, 0xB418, 0xB3CC, 0xB9B4, 0x20, 0xC218,
     0x20, 0xC5C6, 0xC74C, 0x2E, 0x20, 0xC778, 0xAC04, 0xC758, 0x20, 0xACB0, 0xC2EC, 0x20,
     0xCCB4, 0xD06C, 0x2E]"

definition edit_modal_title :: jsstring where
  "edit_modal_title = [0xC218, 0xC815, 0x3A, 0x20, 0xC218, 0xC815, 0x20, 0xC554, 0xD638, 0x20,
     0xD655, 0xC778]"

definition edit_modal_foot :: jsstring where
  "edit_modal_foot = [0xC791, 0xC131, 0xC790, 0xB9CC, 0x20, 0xC218, 0xC815, 0x20, 0xAC00,
     0xB2A5, 0x20, 0x2B, 0x20, 0xC554, 0xD638, 0xB3C4, 0x20, 0xD544, 0xC694, 0x2E, 0x20, 0xB124,
     0xAC00, 0x20, 0xC6D0, 0xD55C, 0x20, 0xC9C0, 0xC625, 0x20, 0xB8F0, 0x2E]"

definition title_prompt :: jsstring where
  "title_prompt = [0xC77C, 0xC815, 0x20, 0xC81C, 0xBAA9, 0x20, 0xC785, 0xB825]"

definition action_prompt :: jsstring where
  "action_prompt = [0xC785, 0xB825, 0x3A, 0x20, 0x65, 0x64, 0x69, 0x74, 0x20, 0x2F, 0x20, 0x64,
     0x65, 0x6C, 0x65, 0x74, 0x65]"

definition new_title_prompt :: jsstring where
  "new_title_prompt = [0xC0C8, 0x20, 0xC81C, 0xBAA9]"

definition not_yours_prefix :: jsstring where
  \<comment> \<open>line 202, the text before the owner's name\<close>
  "not_yours_prefix = [0xC774, 0x20, 0xC77C, 0xC815, 0xC740, 0x20]"

definition not_yours_suffix :: jsstring where
  \<comment> \<open>line 202, the text after the owner's name\<close>
  "not_yours_suffix = [0x20, 0xC791, 0xC131, 0xC774, 0xB77C, 0x20, 0xB108, 0xB294, 0x20, 0xC190,
     0xB300, 0xBA74, 0x20, 0xC548, 0x20, 0xB428, 0x2E]"

definition only_edit_delete_msg :: jsstring where
  "only_edit_delete_msg = [0x65, 0x64, 0x69, 0x74, 0x20, 0xB610, 0xB294, 0x20, 0x64, 0x65, 0x6C,
     0x65, 0x74, 0x65, 0xB9CC, 0x2E]"

definition action_delete :: jsstring where
  "action_delete = [0x64, 0x65, 0x6C, 0x65, 0x74, 0x65]"

definition action_edit :: jsstring where
  "action_edit = [0x65, 0x64, 0x69, 0x74]"

definition bearer_prefix :: jsstring where
  "bearer_prefix = [0x42, 0x65, 0x61, 0x72, 0x65, 0x72, 0x20]"

definition online_suffix :: jsstring where
  "online_suffix = [0x20, 0x4F, 0x4E, 0x4C, 0x49, 0x4E, 0x45]"

definition offline_text :: jsstring where
  "offline_text = [0x4F, 0x46, 0x46, 0x4C, 0x49, 0x4E, 0x45]"

section \<open>Data\<close>

text \<open>\<^verbatim>\<open>me = { id, name, color }\<close>, built from the login response (line 102).\<close>

record user =
  u_id :: "jsstring option"
  u_name :: "jsstring option"
  u_color :: "jsstring option"

text \<open>
  The properties of a FullCalendar event that \<^verbatim>\<open>eventClick\<close> reads: \<^verbatim>\<open>ev.id\<close>,
  \<^verbatim>\<open>ev.title\<close> and the three extended properties.
\<close>

record calendar_event =
  ev_id :: jsstring
  ev_title :: jsstring
  ownerUserId :: "jsstring option"
  ownerName :: "jsstring option"
  ev_note :: "jsstring option"

record sel_info =
  startStr :: jsstring
  endStr :: jsstring
  allDay :: bool

text \<open>
  The request targets. \<open>EventsRangePath a b\<close> is
  \<^verbatim>\<open>/api/events?start=a&end=b\<close>, \<open>EventPath i\<close> is \<^verbatim>\<open>/api/events/i\<close> and
  \<open>EventPasscodePath i p\<close> is \<^verbatim>\<open>/api/events/i?passcode=p\<close>, the query values
  passed through \<^verbatim>\<open>encodeURIComponent\<close>. A JSON body is kept as its fields.
\<close>

datatype path =
    LoginPath
  | EventsPath
  | EventsRangePath jsstring jsstring
  | EventPath jsstring
  | EventPasscodePath jsstring jsstring

datatype http_method = POST | PUT | DELETE

datatype body =
    LoginBody jsstring jsstring
  | CreateBody jsstring jsstring jsstring bool "jsstring option" jsstring
  | UpdateBody jsstring "jsstring option" jsstring

record options =
  opt_method :: "http_method option"
  opt_body :: "body option"

record headers =
  Authorization :: "jsstring option"
  Content_Type_json :: bool

record request =
  req_path :: path
  req_options :: options
  req_headers :: headers

text \<open>
  A response: its status and, when the body parses as JSON (\<open>None\<close> when
  \<^verbatim>\<open>res.json()\<close> rejects), the properties of the parsed object that the client
  reads, each a string or missing. \<^verbatim>\<open>res.ok\<close> is true for the statuses 200 to
  299. Identifiers are compared with \<^verbatim>\<open>===\<close>, which on strings and
  \<^verbatim>\<open>undefined\<close> is equality.
\<close>

record json_body =
  detail :: "jsstring option"
  j_token :: "jsstring option"
  j_user_id :: "jsstring option"
  j_name :: "jsstring option"
  j_color :: "jsstring option"

record response =
  status :: nat
  json :: "json_body option"

datatype fetch_outcome = NetworkFailure | Response response

definition ok :: "response \<Rightarrow> bool" where
  "ok r = (200 \<le> status r \<and> status r \<le> 299)"

definition empty_object :: json_body where
  "empty_object = \<lparr>detail = None, j_token = None, j_user_id = None, j_name = None,
     j_color = None\<rparr>"

text \<open>
  What is thrown: \<^verbatim>\<open>new Error(message)\<close> by the source itself, or a
  \<^verbatim>\<open>TypeError\<close> or \<^verbatim>\<open>URIError\<close> of the engine (a rejected
  \<^verbatim>\<open>fetch\<close>, a method call on the \<^verbatim>\<open>null\<close> calendar, a string that
  \<^verbatim>\<open>encodeURIComponent\<close> refuses) whose message is the engine's own text, kept
  apart from the strings of the page: it is none of the source's literals.
\<close>

datatype engine_fault = FetchRejected | NullCalendar | URIMalformed

datatype js_error = Error jsstring | EngineError engine_fault

datatype msg_text = Lit jsstring | EngineText engine_fault

definition message :: "js_error \<Rightarrow> msg_text" where
  "message e = (case e of Error m \<Rightarrow> Lit m | EngineError f \<Rightarrow> EngineText f)"

section \<open>State and effects\<close>

record modal_spec =
  m_title :: "jsstring option"
  m_foot :: "jsstring option"
  withNote :: bool

record confirmation =
  passcode :: jsstring
  note_text :: jsstring

text \<open>
  The caller suspended at \<^verbatim>\<open>await showModal(...)\<close>, with the locals it captured, and
  the caller suspended at \<^verbatim>\<open>await api(...)\<close>. Each
  \<^verbatim>\<open>new FullCalendar.Calendar\<close> is an object of its own, numbered in the order of
  creation: the \<^verbatim>\<open>events\<close> callback answers the instance that asked.
\<close>

datatype modal_cont =
    AddCont jsstring sel_info
  | DeleteCont calendar_event
  | EditCont calendar_event jsstring

datatype fetch_cont = LoginK | EventsK nat | MutationK

datatype display = Initial | DNone | Block | InlineBlock | Grid

text \<open>
  The state of the page: the three variables \<^verbatim>\<open>token\<close>, \<^verbatim>\<open>me\<close> and
  \<^verbatim>\<open>calendar\<close> (the instance it holds, if any), the calendar instances that have
  been rendered and not destroyed, the number of instances created so far, the requests in
  flight, and the properties of the page's elements that the source writes.
\<close>

record state =
  token :: "jsstring option"
  me :: "user option"
  calendar :: "nat option"
  live :: "nat list"
  created :: nat
  inflight :: "fetch_cont list"
  modalOk_onclick :: "modal_cont option"
  modalCancel_onclick :: "modal_cont option"
  modalTitle_text :: jsstring
  modalFoot_text :: jsstring
  modalPass_value :: jsstring
  modalNote_value :: jsstring
  modalNote_display :: display
  modal_display :: display
  loginCard_display :: display
  calendarCard_display :: display
  logoutBtn_display :: display
  badge_text :: jsstring
  badge_color :: "jsstring option"

datatype effect =
    Alert msg_text
  | Prompt jsstring "jsstring option"
  | OpenModal modal_spec
  | CloseModal
  | Fetch request
  | CalendarRender nat
  | CalendarDestroy nat
  | RefetchEvents nat
  | FeedSuccess nat json_body
  | FeedFailure nat js_error

section \<open>\<^verbatim>\<open>api\<close> (lines 6 to 18)\<close>

text \<open>
  Line 8: the header is set when \<^verbatim>\<open>token\<close> is truthy, and not otherwise. Line 9:
  the bodies of this client are JSON texts, never \<^verbatim>\<open>FormData\<close>.
\<close>

definition auth_header :: "jsstring option \<Rightarrow> jsstring option" where
  "auth_header tok =
     (case tok of None \<Rightarrow> None
      | Some t \<Rightarrow> if t \<noteq> [] then Some (bearer_prefix @ t) else None)"

definition api_request :: "jsstring option \<Rightarrow> path \<Rightarrow> options \<Rightarrow> request" where
  "api_request tok p opts =
     \<lparr>req_path = p, req_options = opts,
      req_headers = \<lparr>Authorization = auth_header tok,
                      Content_Type_json = (opt_body opts \<noteq> None)\<rparr>\<rparr>"

text \<open>The call up to \<^verbatim>\<open>await fetch\<close>: the request goes out and the caller waits.\<close>

definition api :: "path \<Rightarrow> options \<Rightarrow> fetch_cont \<Rightarrow> state \<Rightarrow> state \<times> effect list" where
  "api p opts k s =
     (s\<lparr>inflight := inflight s @ [k]\<rparr>, [Fetch (api_request (token s) p opts)])"

text \<open>The call after \<^verbatim>\<open>await fetch\<close>: what \<^verbatim>\<open>api\<close> returns or throws.\<close>

definition api_result :: "fetch_outcome \<Rightarrow> js_error + json_body" where
  "api_result out =
     (case out of
        NetworkFailure \<Rightarrow> Inl (EngineError FetchRejected)
      | Response res \<Rightarrow>
          (let data = (case json res of None \<Rightarrow> empty_object | Some b \<Rightarrow> b)
           in if \<not> ok res then Inl (Error (or_default (detail data) request_failed_msg))
              else Inr data))"

section \<open>\<^verbatim>\<open>showModal\<close> (lines 20 to 47)\<close>

definition cleanup :: "state \<Rightarrow> state" where
  "cleanup s = s\<lparr>modalOk_onclick := None, modalCancel_onclick := None, modal_display := DNone\<rparr>"

definition showModal :: "modal_spec \<Rightarrow> modal_cont \<Rightarrow> state \<Rightarrow> state \<times> effect list" where
  "showModal sp k s =
     (s\<lparr>modalTitle_text := or_default (m_title sp) default_modal_title,
        modalFoot_text := or_default (m_foot sp) [],
        modalPass_value := [],
        modalNote_value := [],
        modalNote_display := (if withNote sp then Block else DNone),
        modal_display := Grid,
        modalCancel_onclick := Some k,
        modalOk_onclick := Some k\<rparr>,
      [OpenModal sp])"

text \<open>The \<^verbatim>\<open>catch\<close> block shared by \<^verbatim>\<open>select\<close> and \<^verbatim>\<open>eventClick\<close> (lines 189, 248).\<close>

definition caller_catch :: "js_error \<Rightarrow> effect list" where
  "caller_catch e = (if message e \<noteq> Lit cancel_msg then [Alert (message e)] else [])"

text \<open>
  The three callers after \<^verbatim>\<open>await showModal\<close> resolved (lines 175, 216, 233). In
  the delete flow \<^verbatim>\<open>encodeURIComponent(passcode)\<close> runs before \<^verbatim>\<open>api\<close>
  is called, inside the \<^verbatim>\<open>try\<close> of line 209.
\<close>

definition modal_resolved :: "modal_cont \<Rightarrow> confirmation \<Rightarrow> state \<Rightarrow> state \<times> effect list" where
  "modal_resolved k c s =
     (case k of
        AddCont title selInfo \<Rightarrow>
          api EventsPath
            \<lparr>opt_method = Some POST,
             opt_body = Some (CreateBody title (startStr selInfo) (endStr selInfo)
               (allDay selInfo) (js_or (Some (note_text c)) None) (passcode c))\<rparr>
            MutationK s
      | DeleteCont ev \<Rightarrow>
          if well_formed (passcode c) then
            api (EventPasscodePath (ev_id ev) (passcode c))
              \<lparr>opt_method = Some DELETE, opt_body = None\<rparr> MutationK s
          else (s, caller_catch (EngineError URIMalformed))
      | EditCont ev newTitle \<Rightarrow>
          api (EventPath (ev_id ev))
            \<lparr>opt_method = Some PUT,
             opt_body = Some (UpdateBody newTitle
               (js_or (js_or (Some (note_text c)) (ev_note ev)) None) (passcode c))\<rparr>
            MutationK s)"

definition modal_rejected :: "modal_cont \<Rightarrow> js_error \<Rightarrow> state \<Rightarrow> state \<times> effect list" where
  "modal_rejected k e s = (s, caller_catch e)"

definition modalCancel_click :: "state \<Rightarrow> state \<times> effect list" where
  "modalCancel_click s =
     (case modalCancel_onclick s of
        None \<Rightarrow> (s, [])
      | Some k \<Rightarrow>
          (let (s', effs) = modal_rejected k (Error cancel_msg) (cleanup s)
           in (s', CloseModal # effs)))"

text \<open>The value the promise is resolved with (lines 41 to 44).\<close>

definition confirmation_of :: "state \<Rightarrow> confirmation" where
  "confirmation_of s =
     (let pass = trim (modalPass_value s);
          note_v = trim (modalNote_value s)
      in \<lparr>passcode = pass, note_text = note_v\<rparr>)"

definition modalOk_click :: "state \<Rightarrow> state \<times> effect list" where
  "modalOk_click s =
     (case modalOk_onclick s of
        None \<Rightarrow> (s, [])
      | Some k \<Rightarrow>
          (let c = confirmation_of s;
               (s', effs) = modal_resolved k c (cleanup s)
           in (s', CloseModal # effs)))"

section \<open>Login and logout (lines 93 to 126)\<close>

definition setMeBadge :: "jsstring \<Rightarrow> jsstring option \<Rightarrow> state \<Rightarrow> state" where
  "setMeBadge txt color s =
     s\<lparr>badge_text := txt, badge_color := (if truthy color then color else None)\<rparr>"

text \<open>
  \<^verbatim>\<open>initCalendar\<close> creates an instance, stores it in \<^verbatim>\<open>calendar\<close> and renders
  it; an instance the variable held before is neither destroyed nor reachable any more.
\<close>

definition initCalendar :: "state \<Rightarrow> state \<times> effect list" where
  "initCalendar s =
     (s\<lparr>calendar := Some (created s), live := live s @ [created s],
        created := Suc (created s)\<rparr>,
      [CalendarRender (created s)])"

definition loginBtn_onclick :: "jsstring \<Rightarrow> jsstring \<Rightarrow> state \<Rightarrow> state \<times> effect list" where
  "loginBtn_onclick user_id pass s =
     api LoginPath \<lparr>opt_method = Some POST, opt_body = Some (LoginBody user_id pass)\<rparr> LoginK s"

definition login_done :: "fetch_outcome \<Rightarrow> state \<Rightarrow> state \<times> effect list" where
  "login_done out s =
     (case api_result out of
        Inl e \<Rightarrow> (s, [Alert (message e)])
      | Inr d \<Rightarrow>
          initCalendar
            (setMeBadge (to_string (j_name d) @ online_suffix) (j_color d)
               (s\<lparr>token := j_token d,
                  me := Some \<lparr>u_id = j_user_id d, u_name = j_name d, u_color = j_color d\<rparr>,
                  loginCard_display := DNone,
                  calendarCard_display := Block,
                  logoutBtn_display := InlineBlock\<rparr>)))"

definition logoutBtn_onclick :: "state \<Rightarrow> state \<times> effect list" where
  "logoutBtn_onclick s =
     (let s1 = setMeBadge offline_text None
                 (s\<lparr>token := None, me := None,
                    calendarCard_display := DNone,
                    loginCard_display := Block,
                    logoutBtn_display := DNone\<rparr>)
      in case calendar s1 of
           None \<Rightarrow> (s1, [])
         | Some c \<Rightarrow> (s1\<lparr>live := removeAll c (live s1), calendar := None\<rparr>, [CalendarDestroy c]))"

section \<open>The calendar's callbacks (lines 155 to 250)\<close>

text \<open>
  \<^verbatim>\<open>events\<close>, called by the instance \<open>c\<close> with the range it shows; the two
  \<^verbatim>\<open>encodeURIComponent\<close> calls are inside the \<^verbatim>\<open>try\<close>.
\<close>

definition events :: "nat \<Rightarrow> jsstring \<Rightarrow> jsstring \<Rightarrow> state \<Rightarrow> state \<times> effect list" where
  "events c start_str end_str s =
     (if well_formed start_str \<and> well_formed end_str then
        api (EventsRangePath start_str end_str) \<lparr>opt_method = None, opt_body = None\<rparr>
          (EventsK c) s
      else (s, [FeedFailure c (EngineError URIMalformed)]))"

definition events_done :: "nat \<Rightarrow> fetch_outcome \<Rightarrow> state \<Rightarrow> state \<times> effect list" where
  "events_done c out s =
     (case api_result out of
        Inl e \<Rightarrow> (s, [FeedFailure c e])
      | Inr d \<Rightarrow> (s, [FeedSuccess c d]))"

text \<open>
  \<^verbatim>\<open>select\<close>; the second argument is what \<^verbatim>\<open>prompt\<close> returns (\<open>None\<close> when the
  human dismisses it).
\<close>

definition select :: "sel_info \<Rightarrow> jsstring option \<Rightarrow> state \<Rightarrow> state \<times> effect list" where
  "select selInfo title_answer s =
     (case title_answer of
        None \<Rightarrow> (s, [Prompt title_prompt None])
      | Some title \<Rightarrow>
          if title = [] then (s, [Prompt title_prompt None])
          else
            (let (s', effs) =
                   showModal \<lparr>m_title = Some add_modal_title, m_foot = Some add_modal_foot,
                              withNote = True\<rparr> (AddCont title selInfo) s
             in (s', Prompt title_prompt None # effs)))"

text \<open>
  The three mutation flows after \<^verbatim>\<open>await api\<close> (lines 187, 220, 242 and the
  \<^verbatim>\<open>catch\<close> blocks): \<^verbatim>\<open>calendar.refetchEvents()\<close> throws inside the
  \<^verbatim>\<open>try\<close> when the calendar is \<^verbatim>\<open>null\<close>.
\<close>

definition mutation_done :: "fetch_outcome \<Rightarrow> state \<Rightarrow> state \<times> effect list" where
  "mutation_done out s =
     (case api_result out of
        Inl e \<Rightarrow> (s, caller_catch e)
      | Inr d \<Rightarrow>
          (case calendar s of
             Some c \<Rightarrow> (s, [RefetchEvents c])
           | None \<Rightarrow> (s, caller_catch (EngineError NullCalendar))))"

text \<open>
  \<^verbatim>\<open>eventClick\<close>; \<open>action_answer\<close> and \<open>title_answer\<close> are what the two
  \<^verbatim>\<open>prompt\<close> calls return.
\<close>

definition isMine :: "state \<Rightarrow> calendar_event \<Rightarrow> bool" where
  "isMine s ev = (case me s of None \<Rightarrow> False | Some m \<Rightarrow> ownerUserId ev = u_id m)"

definition eventClick ::
    "calendar_event \<Rightarrow> jsstring option \<Rightarrow> jsstring option \<Rightarrow> state \<Rightarrow> state \<times> effect list" where
  "eventClick ev action_answer title_answer s =
     (if \<not> isMine s ev then
        (s, [Alert (Lit (not_yours_prefix @ to_string (ownerName ev) @ not_yours_suffix))])
      else if \<not> truthy action_answer then (s, [Prompt action_prompt None])
      else if action_answer = Some action_delete then
        (let (s', effs) =
               showModal \<lparr>m_title = Some delete_modal_title, m_foot = Some delete_modal_foot,
                          withNote = False\<rparr> (DeleteCont ev) s
         in (s', Prompt action_prompt None # effs))
      else if action_answer = Some action_edit then
        (let newTitle = (case title_answer of None \<Rightarrow> ev_title ev | Some t \<Rightarrow> t);
             (s', effs) =
               showModal \<lparr>m_title = Some edit_modal_title, m_foot = Some edit_modal_foot,
                          withNote = True\<rparr> (EditCont ev newTitle) s
         in (s', Prompt action_prompt None # Prompt new_title_prompt (Some (ev_title ev)) # effs))
      else (s, [Prompt action_prompt None, Alert (Lit only_edit_delete_msg)]))"

section \<open>The event loop\<close>

text \<open>
  What can happen to the page: a click, typing into the two fields of the modal, a callback
  of a calendar instance, and the settling of a request in flight. FullCalendar invokes the
  callbacks of an instance that has been rendered and not destroyed, whether or not the
  variable \<^verbatim>\<open>calendar\<close> still holds it.
\<close>

datatype input =
    LoginClick jsstring jsstring
  | LogoutClick
  | TypePass jsstring
  | TypeNote jsstring
  | ModalOkClick
  | ModalCancelClick
  | CalendarEvents nat jsstring jsstring
  | CalendarSelect nat sel_info "jsstring option"
  | CalendarEventClick nat calendar_event "jsstring option" "jsstring option"
  | FetchSettled nat fetch_outcome

definition settle :: "nat \<Rightarrow> fetch_outcome \<Rightarrow> state \<Rightarrow> state \<times> effect list" where
  "settle i out s =
     (if i < length (inflight s) then
        (let s' = s\<lparr>inflight := take i (inflight s) @ drop (Suc i) (inflight s)\<rparr>
         in case inflight s ! i of
              LoginK \<Rightarrow> login_done out s'
            | EventsK c \<Rightarrow> events_done c out s'
            | MutationK \<Rightarrow> mutation_done out s')
      else (s, []))"

definition step :: "state \<Rightarrow> input \<Rightarrow> state \<times> effect list" where
  "step s i =
     (case i of
        LoginClick user_id pass \<Rightarrow> loginBtn_onclick user_id pass s
      | LogoutClick \<Rightarrow> logoutBtn_onclick s
      | TypePass v \<Rightarrow> (s\<lparr>modalPass_value := v\<rparr>, [])
      | TypeNote v \<Rightarrow> (s\<lparr>modalNote_value := v\<rparr>, [])
      | ModalOkClick \<Rightarrow> modalOk_click s
      | ModalCancelClick \<Rightarrow> modalCancel_click s
      | CalendarEvents c start_str end_str \<Rightarrow>
          if c \<in> set (live s) then events c start_str end_str s else (s, [])
      | CalendarSelect c selInfo t \<Rightarrow>
          if c \<in> set (live s) then select selInfo t s else (s, [])
      | CalendarEventClick c ev a t \<Rightarrow>
          if c \<in> set (live s) then eventClick ev a t s else (s, [])
      | FetchSettled n out \<Rightarrow> settle n out s)"

fun run :: "state \<Rightarrow> input list \<Rightarrow> state \<times> effect list" where
  "run s [] = (s, [])"
| "run s (i # rest) =
     (let (s1, e1) = step s i; (s2, e2) = run s1 rest in (s2, e1 @ e2))"

text \<open>The page once \<^verbatim>\<open>init\<close> has installed the two button handlers (line 128).\<close>

definition init_state :: state where
  "init_state =
     \<lparr>token = None, me = None, calendar = None, live = [], created = 0, inflight = [],
      modalOk_onclick = None, modalCancel_onclick = None,
      modalTitle_text = [], modalFoot_text = [], modalPass_value = [], modalNote_value = [],
      modalNote_display = Initial, modal_display = Initial,
      loginCard_display = Initial, calendarCard_display = Initial, logoutBtn_display = Initial,
      badge_text = offline_text, badge_color = None\<rparr>"

section \<open>The failure kinds of the specification\<close>

text \<open>
  The specification's reading of a failed response, in its own words (section 6):
  unauthorized is an AuthError, not-found a NotFound, forbidden a Forbidden, anything else
  generic. It is compared below with what \<open>api_result\<close> throws.
\<close>

datatype failure_kind = AuthError | NotFound | Forbidden | Generic

definition spec_failure_kind :: "nat \<Rightarrow> failure_kind" where
  "spec_failure_kind st =
     (if st = 401 then AuthError else if st = 404 then NotFound
      else if st = 403 then Forbidden else Generic)"

text \<open>
  The specification's confirmation, in its own words (sections 3 and 4.2): a passcode, and
  an optional note; on submit the passcode is trimmed, and the note is trimmed and
  normalized to absent if blank. \<open>as_pending\<close> reads the object of line 44 as such a
  value: its \<^verbatim>\<open>note\<close> property is always there, and a string.
\<close>

record pending_confirmation =
  pc_passcode :: jsstring
  pc_note :: "jsstring option"

definition spec_request_result :: "jsstring \<Rightarrow> jsstring \<Rightarrow> pending_confirmation" where
  "spec_request_result pass_field note_field =
     \<lparr>pc_passcode = trim pass_field,
      pc_note = (if trim note_field = [] then None else Some (trim note_field))\<rparr>"

definition as_pending :: "confirmation \<Rightarrow> pending_confirmation" where
  "as_pending c = \<lparr>pc_passcode = passcode c, pc_note = Some (note_text c)\<rparr>"

section \<open>Concrete scenarios\<close>

definition alice :: jsstring where
  "alice = [0x61, 0x6C, 0x69, 0x63, 0x65]"

definition bob :: jsstring where
  "bob = [0x62, 0x6F, 0x62]"

definition secret :: jsstring where
  "secret = [0x73, 0x33, 0x63, 0x72, 0x33, 0x74]"

definition padded_secret :: jsstring where
  \<comment> \<open>the same passcode typed with a space before and a tab after\<close>
  "padded_secret = [0x20, 0x73, 0x33, 0x63, 0x72, 0x33, 0x74, 0x9]"

definition tok1 :: jsstring where
  "tok1 = [0x74, 0x6F, 0x6B, 0x31]"

definition tok2 :: jsstring where
  "tok2 = [0x74, 0x6F, 0x6B, 0x32]"

definition lone_surrogate_passcode :: jsstring where
  \<comment> \<open>the letter a followed by a high surrogate with no low surrogate after it\<close>
  "lone_surrogate_passcode = [0x61, 0xD83D]"

definition red :: jsstring where
  "red = [0x23, 0x66, 0x30, 0x30]"

definition lunch :: jsstring where
  "lunch = [0x6C, 0x75, 0x6E, 0x63, 0x68]"

definition old_note :: jsstring where
  "old_note = [0x6F, 0x6C, 0x64]"

definition day1 :: jsstring where
  "day1 = [0x32, 0x30, 0x32, 0x36, 0x2D, 0x30, 0x31, 0x2D, 0x30, 0x39]"

definition day2 :: jsstring where
  "day2 = [0x32, 0x30, 0x32, 0x36, 0x2D, 0x30, 0x31, 0x2D, 0x31, 0x30]"

definition unknown_user_detail :: jsstring where
  "unknown_user_detail = [0x75, 0x6E, 0x6B, 0x6E, 0x6F, 0x77, 0x6E, 0x20, 0x75, 0x73, 0x65, 0x72]"

definition bad_passcode_detail :: jsstring where
  "bad_passcode_detail = [0x62, 0x61, 0x64, 0x20, 0x70, 0x61, 0x73, 0x73, 0x63, 0x6F, 0x64, 0x65]"

definition alice_login_response :: response where
  "alice_login_response =
     \<lparr>status = 200,
      json = Some \<lparr>detail = None, j_token = Some tok1, j_user_id = Some alice,
                    j_name = Some alice, j_color = Some red\<rparr>\<rparr>"

definition bob_login_response :: response where
  "bob_login_response =
     \<lparr>status = 200,
      json = Some \<lparr>detail = None, j_token = Some tok2, j_user_id = Some bob,
                    j_name = Some bob, j_color = Some red\<rparr>\<rparr>"

definition events_response :: response where
  \<comment> \<open>an answer to a date-range query; its events are not among the properties read here\<close>
  "events_response = \<lparr>status = 200, json = Some empty_object\<rparr>"

definition failure_response :: "nat \<Rightarrow> jsstring option \<Rightarrow> response" where
  "failure_response st d = \<lparr>status = st, json = Some (empty_object\<lparr>detail := d\<rparr>)\<rparr>"

definition alice_event :: calendar_event where
  "alice_event = \<lparr>ev_id = [0x37], ev_title = lunch, ownerUserId = Some alice,
     ownerName = Some alice, ev_note = Some old_note\<rparr>"

definition bob_event :: calendar_event where
  "bob_event = \<lparr>ev_id = [0x38], ev_title = lunch, ownerUserId = Some bob,
     ownerName = Some bob, ev_note = None\<rparr>"

definition one_day :: sel_info where
  "one_day = \<lparr>startStr = day1, endStr = day2, allDay = True\<rparr>"

text \<open>Alice has logged in and her calendar is on the page.\<close>

definition alice_online :: state where
  "alice_online =
     fst (run init_state [LoginClick alice secret, FetchSettled 0 (Response alice_login_response)])"

text \<open>Alice has selected a day and named the event: the confirmation is open.\<close>

definition confirming_add :: state where
  "confirming_add = fst (run alice_online [CalendarSelect 0 one_day (Some lunch)])"

text \<open>
  Alice selects a day, names the event, types her passcode into the confirmation and, the
  confirmation still open, logs out.
\<close>

definition logged_out_with_open_modal :: state where
  "logged_out_with_open_modal =
     fst (run alice_online [CalendarSelect 0 one_day (Some lunch), TypePass secret, LogoutClick])"



text \<open>
  The login button is clicked twice before the first answer comes, both logins are answered,
  and the human logs out.
\<close>

definition logged_out_after_double_login :: state where
  "logged_out_after_double_login =
     fst (run init_state
       [LoginClick alice secret, LoginClick alice secret,
        FetchSettled 0 (Response alice_login_response),
        FetchSettled 0 (Response alice_login_response),
        LogoutClick])"

text \<open>
  Alice clicks her own event, asks to edit it, dismisses the title prompt, types her
  passcode with white space around it and leaves the note blank.
\<close>

definition confirming_edit :: state where
  "confirming_edit =
     fst (run alice_online
       [CalendarEventClick 0 alice_event (Some action_edit) None, TypePass padded_secret,
        TypeNote [0x20, 0x3000]])"

text \<open>Alice asks to delete her event and types a passcode that is not well-formed.\<close>

definition confirming_delete_ill_formed :: state where
  "confirming_delete_ill_formed =
     fst (run alice_online
       [CalendarEventClick 0 alice_event (Some action_delete) None,
        TypePass lone_surrogate_passcode])"

section \<open>Evaluation\<close>

lemmas lits = request_failed_msg_def cancel_msg_def default_modal_title_def add_modal_title_def
  add_modal_foot_def delete_modal_title_def delete_modal_foot_def edit_modal_title_def
  edit_modal_foot_def title_prompt_def action_prompt_def new_title_prompt_def
  not_yours_prefix_def not_yours_suffix_def only_edit_delete_msg_def action_delete_def
  action_edit_def bearer_prefix_def online_suffix_def offline_text_def undefined_text_def

lemmas scen = alice_def bob_def secret_def padded_secret_def tok1_def tok2_def red_def lunch_def
  old_note_def day1_def day2_def unknown_user_detail_def bad_passcode_detail_def
  alice_login_response_def bob_login_response_def events_response_def failure_response_def
  alice_event_def bob_event_def one_day_def lone_surrogate_passcode_def

lemmas handlers = api_def api_request_def auth_header_def api_result_def cleanup_def
  showModal_def caller_catch_def modal_resolved_def modal_rejected_def modalCancel_click_def
  confirmation_of_def modalOk_click_def setMeBadge_def initCalendar_def loginBtn_onclick_def
  login_done_def logoutBtn_onclick_def events_def events_done_def select_def mutation_done_def
  isMine_def eventClick_def settle_def step_def truthy_def js_or_def or_default_def
  to_string_def message_def ok_def empty_object_def trim_def is_white_space_def
  is_high_surrogate_def is_low_surrogate_def Let_def

lemma alice_online_eq:
  "alice_online =
     \<lparr>token = Some tok1,
      me = Some \<lparr>u_id = Some alice, u_name = Some alice, u_color = Some red\<rparr>,
      calendar = Some 0, live = [0], created = 1, inflight = [],
      modalOk_onclick = None, modalCancel_onclick = None,
      modalTitle_text = [], modalFoot_text = [], modalPass_value = [], modalNote_value = [],
      modalNote_display = Initial, modal_display = Initial,
      loginCard_display = DNone, calendarCard_display = Block, logoutBtn_display = InlineBlock,
      badge_text = alice @ online_suffix, badge_color = Some red\<rparr>"
  by (simp add: alice_online_def init_state_def handlers scen lits)

lemma confirming_add_eq:
  "confirming_add =
     alice_online\<lparr>modalTitle_text := add_modal_title, modalFoot_text := add_modal_foot,
       modalNote_display := Block, modal_display := Grid,
       modalCancel_onclick := Some (AddCont lunch one_day),
       modalOk_onclick := Some (AddCont lunch one_day)\<rparr>"
  by (simp add: confirming_add_def alice_online_eq handlers scen lits)

lemma logged_out_with_open_modal_eq:
  "logged_out_with_open_modal =
     confirming_add\<lparr>token := None, me := None, calendar := None, live := [],
       modalPass_value := secret, loginCard_display := Block, calendarCard_display := DNone,
       logoutBtn_display := DNone, badge_text := offline_text, badge_color := None\<rparr>"
  by (simp add: logged_out_with_open_modal_def confirming_add_eq alice_online_eq handlers scen
      lits)



lemma logged_out_after_double_login_eq:
  "logged_out_after_double_login =
     init_state\<lparr>live := [0], created := 2, loginCard_display := Block,
       calendarCard_display := DNone, logoutBtn_display := DNone\<rparr>"
  by (simp add: logged_out_after_double_login_def init_state_def handlers scen lits)

lemma confirming_edit_eq:
  "confirming_edit =
     alice_online\<lparr>modalTitle_text := edit_modal_title, modalFoot_text := edit_modal_foot,
       modalPass_value := padded_secret, modalNote_value := [0x20, 0x3000],
       modalNote_display := Block, modal_display := Grid,
       modalCancel_onclick := Some (EditCont alice_event lunch),
       modalOk_onclick := Some (EditCont alice_event lunch)\<rparr>"
  by (simp add: confirming_edit_def alice_online_eq handlers scen lits)

lemma confirming_delete_ill_formed_eq:
  "confirming_delete_ill_formed =
     alice_online\<lparr>modalTitle_text := delete_modal_title, modalFoot_text := delete_modal_foot,
       modalPass_value := lone_surrogate_passcode, modalNote_display := DNone,
       modal_display := Grid,
       modalCancel_onclick := Some (DeleteCont alice_event),
       modalOk_onclick := Some (DeleteCont alice_event)\<rparr>"
  by (simp add: confirming_delete_ill_formed_def alice_online_eq handlers scen lits)

lemma trim_examples:
  "trim padded_secret = secret" "trim secret = secret" "trim [0x20, 0x3000] = []"
  "trim [0x20, 0x9] = []" "trim [0x20] = []" "trim [] = []"
  "trim lone_surrogate_passcode = lone_surrogate_passcode"
  by (simp_all add: trim_def is_white_space_def padded_secret_def secret_def
      lone_surrogate_passcode_def)

lemma well_formed_examples:
  "well_formed secret" "well_formed day1" "well_formed day2"
  "\<not> well_formed lone_surrogate_passcode"
  by (simp_all add: is_high_surrogate_def is_low_surrogate_def secret_def day1_def day2_def
      lone_surrogate_passcode_def)

section \<open>Helper lemmas\<close>

lemma trim_decomp:
  "\<exists>l r. s = l @ trim s @ r \<and> list_all is_white_space l \<and> list_all is_white_space r"
proof -
  let ?l = "takeWhile is_white_space s"
  let ?m = "dropWhile is_white_space s"
  let ?r = "rev (takeWhile is_white_space (rev ?m))"
  have "rev ?m = takeWhile is_white_space (rev ?m) @ dropWhile is_white_space (rev ?m)"
    by simp
  then have "?m = trim s @ ?r"
    unfolding trim_def by (metis rev_append rev_rev_ident)
  then have "s = ?l @ trim s @ ?r"
    by (metis takeWhile_dropWhile_id)
  moreover have "list_all is_white_space ?l"
    by (simp add: list_all_iff) (meson set_takeWhileD)
  moreover have "list_all is_white_space ?r"
    by (simp add: list_all_iff) (meson set_takeWhileD)
  ultimately show ?thesis by blast
qed

lemma trim_ends:
  "trim s = [] \<or> (\<not> is_white_space (hd (trim s)) \<and> \<not> is_white_space (last (trim s)))"
proof (cases "trim s = []")
  case True then show ?thesis by simp
next
  case False
  let ?m = "dropWhile is_white_space s"
  have ne: "dropWhile is_white_space (rev ?m) \<noteq> []" using False by (simp add: trim_def)
  then have l: "\<not> is_white_space (hd (dropWhile is_white_space (rev ?m)))"
    by (rule hd_dropWhile)
  have "last (trim s) = hd (dropWhile is_white_space (rev ?m))"
    using ne by (simp add: trim_def last_rev)
  with l have 1: "\<not> is_white_space (last (trim s))" by simp
  have mne: "?m \<noteq> []" using ne by (cases "dropWhile is_white_space s") simp_all
  then have h: "\<not> is_white_space (hd ?m)" by (rule hd_dropWhile)
  obtain r where "?m = trim s @ r"
    by (metis trim_def rev_append rev_rev_ident takeWhile_dropWhile_id)
  then have "hd ?m = hd (trim s)" using False by (metis hd_append2)
  with h have 2: "\<not> is_white_space (hd (trim s))" by simp
  from 1 2 show ?thesis by simp
qed

lemma api_effects: "snd (api p opts k s) = [Fetch (api_request (token s) p opts)]"
  by (simp add: api_def)

lemma api_state: "fst (api p opts k s) = s\<lparr>inflight := inflight s @ [k]\<rparr>"
  by (simp add: api_def)

lemma modalOk_click_Some:
  "modalOk_onclick s = Some k \<Longrightarrow>
   modalOk_click s =
     (fst (modal_resolved k \<lparr>passcode = trim (modalPass_value s),
             note_text = trim (modalNote_value s)\<rparr> (cleanup s)),
      CloseModal # snd (modal_resolved k \<lparr>passcode = trim (modalPass_value s),
             note_text = trim (modalNote_value s)\<rparr> (cleanup s)))"
  by (simp add: modalOk_click_def confirmation_of_def case_prod_beta Let_def)

lemma token_cleanup: "token (cleanup s) = token s"
  by (simp add: cleanup_def)

lemma modal_resolved_Add:
  "snd (modal_resolved (AddCont title selInfo) c s) =
     [Fetch (api_request (token s) EventsPath
        \<lparr>opt_method = Some POST,
         opt_body = Some (CreateBody title (startStr selInfo) (endStr selInfo)
           (allDay selInfo) (if note_text c = [] then None else Some (note_text c))
           (passcode c))\<rparr>)]"
  by (simp add: modal_resolved_def api_def js_or_def truthy_def)

lemma modal_resolved_Delete:
  "snd (modal_resolved (DeleteCont ev) c s) =
     (if well_formed (passcode c) then
        [Fetch (api_request (token s) (EventPasscodePath (ev_id ev) (passcode c))
           \<lparr>opt_method = Some DELETE, opt_body = None\<rparr>)]
      else [Alert (EngineText URIMalformed)])"
  by (simp add: modal_resolved_def api_def caller_catch_def message_def)

lemma modal_resolved_Edit:
  "snd (modal_resolved (EditCont ev newTitle) c s) =
     [Fetch (api_request (token s) (EventPath (ev_id ev))
        \<lparr>opt_method = Some PUT,
         opt_body = Some (UpdateBody newTitle
           (if note_text c \<noteq> [] then Some (note_text c)
            else if truthy (ev_note ev) then ev_note ev else None)
           (passcode c))\<rparr>)]"
  by (simp add: modal_resolved_def api_def js_or_def truthy_def)

lemma modal_resolved_handlers:
  "modalOk_onclick (fst (modal_resolved k c s)) = modalOk_onclick s
   \<and> modalCancel_onclick (fst (modal_resolved k c s)) = modalCancel_onclick s"
  by (cases k) (simp_all add: modal_resolved_def api_def)

lemma modal_resolved_fetch_token:
  "Fetch r \<in> set (snd (modal_resolved k c s)) \<Longrightarrow>
   Authorization (req_headers r) = auth_header (token s)"
  by (cases k)
     (auto simp: modal_resolved_Add modal_resolved_Delete modal_resolved_Edit api_request_def
        split: if_splits)

lemma modalOk_click_clears:
  "modalOk_onclick s = Some k \<Longrightarrow>
   modalOk_onclick (fst (modalOk_click s)) = None
   \<and> modalCancel_onclick (fst (modalOk_click s)) = None"
  by (simp add: modalOk_click_Some modal_resolved_handlers cleanup_def)

lemma modalCancel_click_clears:
  "modalCancel_onclick s = Some k \<Longrightarrow>
   modalOk_onclick (fst (modalCancel_click s)) = None
   \<and> modalCancel_onclick (fst (modalCancel_click s)) = None"
  by (simp add: modalCancel_click_def modal_rejected_def cleanup_def)

lemma step_fetch_token:
  "Fetch r \<in> set (snd (step s i)) \<Longrightarrow> Authorization (req_headers r) = auth_header (token s)"
proof (cases i)
  case (FetchSettled n out)
  assume "Fetch r \<in> set (snd (step s i))"
  with FetchSettled show ?thesis
    by (auto simp: step_def settle_def login_done_def events_done_def mutation_done_def
        initCalendar_def caller_catch_def Let_def
        split: if_splits fetch_cont.splits sum.splits option.splits)
next
  case ModalOkClick
  assume "Fetch r \<in> set (snd (step s i))"
  with ModalOkClick have f: "Fetch r \<in> set (snd (modalOk_click s))"
    by (simp add: step_def)
  show ?thesis
  proof (cases "modalOk_onclick s")
    case None
    with f show ?thesis by (simp add: modalOk_click_def)
  next
    case (Some k)
    with f have "Fetch r \<in> set (snd (modal_resolved k
        \<lparr>passcode = trim (modalPass_value s), note_text = trim (modalNote_value s)\<rparr>
        (cleanup s)))"
      by (simp add: modalOk_click_Some)
    then show ?thesis
      using modal_resolved_fetch_token token_cleanup by metis
  qed
next
  case ModalCancelClick
  assume "Fetch r \<in> set (snd (step s i))"
  with ModalCancelClick show ?thesis
    by (auto simp: step_def modalCancel_click_def modal_rejected_def caller_catch_def
        split: option.splits if_splits)
qed (auto simp: step_def loginBtn_onclick_def logoutBtn_onclick_def events_def select_def
      eventClick_def showModal_def api_def api_request_def Let_def setMeBadge_def
      split: if_splits option.splits)

lemma api_result_failed:
  "\<not> ok res \<Longrightarrow>
   api_result (Response res) =
     Inl (Error (case json res of None \<Rightarrow> request_failed_msg
                 | Some b \<Rightarrow> or_default (detail b) request_failed_msg))"
  by (simp add: api_result_def or_default_def empty_object_def split: option.splits)


lemma logout_state:
  "fst (logoutBtn_onclick s) =
     s\<lparr>token := None, me := None, calendar := None,
       live := (case calendar s of None \<Rightarrow> live s | Some c \<Rightarrow> removeAll c (live s)),
       calendarCard_display := DNone, loginCard_display := Block, logoutBtn_display := DNone,
       badge_text := offline_text, badge_color := None\<rparr>"
  by (simp add: logoutBtn_onclick_def setMeBadge_def truthy_def Let_def split: option.splits)

lemma logout_effects:
  "snd (logoutBtn_onclick s) = (case calendar s of None \<Rightarrow> [] | Some c \<Rightarrow> [CalendarDestroy c])"
  by (simp add: logoutBtn_onclick_def setMeBadge_def Let_def split: option.splits)

lemma logout_twice:
  "logoutBtn_onclick (fst (logoutBtn_onclick s)) = (fst (logoutBtn_onclick s), [])"
  by (simp add: prod_eq_iff logout_state logout_effects)

lemma run_logouts:
  "fst (run (fst (logoutBtn_onclick s)) (replicate n LogoutClick)) = fst (logoutBtn_onclick s)
   \<and> snd (run (fst (logoutBtn_onclick s)) (replicate n LogoutClick)) = []"
  by (induction n) (simp_all add: step_def logout_twice case_prod_beta)



section \<open>The claims\<close>




text \<open>
  Claim C2, as the code has it. Every request of the client is sent by \<^verbatim>\<open>api\<close>,
  and each one carries \<^verbatim>\<open>Authorization: Bearer\<close> followed by the token exactly
  when the token is a non-empty string. \<^verbatim>\<open>api\<close> has no other check: with no token
  the request is sent all the same, without the header.
\<close>

theorem gateway_calls_carry_token:
  "(Fetch r \<in> set (snd (step s i)) \<longrightarrow>
      Authorization (req_headers r) =
        (case token s of None \<Rightarrow> None
         | Some t \<Rightarrow> if t = [] then None else Some (bearer_prefix @ t)))
   \<and> snd (api p opts k s) =
       [Fetch \<lparr>req_path = p, req_options = opts,
               req_headers =
                 \<lparr>Authorization =
                    (case token s of None \<Rightarrow> None
                     | Some t \<Rightarrow> if t = [] then None else Some (bearer_prefix @ t)),
                  Content_Type_json = (opt_body opts \<noteq> None)\<rparr>\<rparr>]"
proof -
  have a: "auth_header (token s) =
      (case token s of None \<Rightarrow> None
       | Some t \<Rightarrow> if t = [] then None else Some (bearer_prefix @ t))"
    by (simp add: auth_header_def split: option.splits)
  have "Fetch r \<in> set (snd (step s i)) \<longrightarrow>
      Authorization (req_headers r) = auth_header (token s)"
    using step_fetch_token by blast
  moreover have "snd (api p opts k s) =
       [Fetch \<lparr>req_path = p, req_options = opts,
               req_headers = \<lparr>Authorization = auth_header (token s),
                  Content_Type_json = (opt_body opts \<noteq> None)\<rparr>\<rparr>]"
    by (simp add: api_def api_request_def)
  ultimately show ?thesis by (simp only: a) 
qed

theorem gateway_calls_carry_token_witness:
  "Fetch \<lparr>req_path = EventsRangePath day1 day2,
          req_options = \<lparr>opt_method = None, opt_body = None\<rparr>,
          req_headers = \<lparr>Authorization = Some (bearer_prefix @ tok1),
                          Content_Type_json = False\<rparr>\<rparr>
     \<in> set (snd (step alice_online (CalendarEvents 0 day1 day2)))
   \<and> token alice_online = Some tok1
   \<and> snd (api EventsPath \<lparr>opt_method = Some POST, opt_body = None\<rparr> MutationK init_state) =
       [Fetch \<lparr>req_path = EventsPath, req_options = \<lparr>opt_method = Some POST, opt_body = None\<rparr>,
               req_headers = \<lparr>Authorization = None, Content_Type_json = False\<rparr>\<rparr>]"
proof -
  have 1: "Fetch \<lparr>req_path = EventsRangePath day1 day2,
          req_options = \<lparr>opt_method = None, opt_body = None\<rparr>,
          req_headers = \<lparr>Authorization = Some (bearer_prefix @ tok1),
                          Content_Type_json = False\<rparr>\<rparr>
     \<in> set (snd (step alice_online (CalendarEvents 0 day1 day2)))"
    by (simp add: alice_online_eq step_def events_def api_def api_request_def auth_header_def
        tok1_def well_formed_examples)
  have 2: "token alice_online = Some tok1" by (simp add: alice_online_eq)
  have 3: "token init_state = None" by (simp add: init_state_def)
  show ?thesis
    using 1 2 3
      gateway_calls_carry_token [where r = "\<lparr>req_path = EventsRangePath day1 day2,
          req_options = \<lparr>opt_method = None, opt_body = None\<rparr>,
          req_headers = \<lparr>Authorization = Some (bearer_prefix @ tok1),
                          Content_Type_json = False\<rparr>\<rparr>" and s = alice_online
          and i = "CalendarEvents 0 day1 day2"]
      gateway_calls_carry_token [where s = init_state and p = EventsPath
          and opts = "\<lparr>opt_method = Some POST, opt_body = None\<rparr>" and k = MutationK]
    by simp
qed

text \<open>
  Against claim C2 as stated: Alice logs out while her confirmation is open and then
  submits it. No session exists, and the create request goes to the network, with no
  \<^verbatim>\<open>Authorization\<close> header.
\<close>

theorem no_session_mutation_still_fetches:
  "token logged_out_with_open_modal = None
   \<and> me logged_out_with_open_modal = None
   \<and> snd (step logged_out_with_open_modal ModalOkClick) =
       [CloseModal,
        Fetch \<lparr>req_path = EventsPath,
               req_options = \<lparr>opt_method = Some POST,
                 opt_body = Some (CreateBody lunch day1 day2 True None secret)\<rparr>,
               req_headers = \<lparr>Authorization = None, Content_Type_json = True\<rparr>\<rparr>]"
  by (simp add: logged_out_with_open_modal_eq confirming_add_eq alice_online_eq step_def
      modalOk_click_Some modal_resolved_Add token_cleanup api_request_def auth_header_def
      one_day_def trim_def is_white_space_def secret_def)

text \<open>
  Claim C3, as the code has it. A click on Cancel closes the confirmation and rejects with
  \<^verbatim>\<open>new Error\<close> of the cancel text; the caller's \<^verbatim>\<open>catch\<close> shows
  nothing and no request is sent, none being added to those in flight. The caller takes an
  error for a cancellation exactly when its message is the cancel text: no error kind is
  looked at.
\<close>

theorem cancel_is_silent:
  assumes "modalCancel_onclick s = Some k"
  shows "modalCancel_click s = (cleanup s, [CloseModal])
       \<and> inflight (cleanup s) = inflight s
       \<and> modalOk_onclick (cleanup s) = None
       \<and> modalCancel_onclick (cleanup s) = None
       \<and> caller_catch (Error cancel_msg) = []
       \<and> (caller_catch e = []) = (message e = Lit cancel_msg)"
  using assms
  by (simp add: modalCancel_click_def modal_rejected_def caller_catch_def cleanup_def message_def)

theorem cancel_is_silent_witness:
  "modalCancel_onclick confirming_add = Some (AddCont lunch one_day)
   \<and> modalCancel_click confirming_add = (cleanup confirming_add, [CloseModal])
   \<and> inflight (cleanup confirming_add) = []
   \<and> caller_catch (Error request_failed_msg) \<noteq> []"
proof -
  have 1: "modalCancel_onclick confirming_add = Some (AddCont lunch one_day)"
    by (simp add: confirming_add_eq)
  have 2: "inflight confirming_add = []"
    by (simp add: confirming_add_eq alice_online_eq)
  have 3: "message (Error request_failed_msg) \<noteq> Lit cancel_msg"
    by (simp add: message_def request_failed_msg_def cancel_msg_def)
  show ?thesis
    using 1 2 3 cancel_is_silent [OF 1, of "Error request_failed_msg"]
    by simp
qed

text \<open>
  Against claim C3 as stated: a Gateway failure whose \<^verbatim>\<open>detail\<close> is the cancel
  text throws the very error a cancellation does, and the caller drops it without a word,
  while the same failure with another \<^verbatim>\<open>detail\<close> is alerted.
\<close>

theorem gateway_failure_taken_for_cancel:
  "api_result (Response (failure_response 403 (Some cancel_msg))) = Inl (Error cancel_msg)
   \<and> mutation_done (Response (failure_response 403 (Some cancel_msg))) alice_online
       = (alice_online, [])
   \<and> mutation_done (Response (failure_response 403 (Some request_failed_msg))) alice_online
       = (alice_online, [Alert (Lit request_failed_msg)])"
  by (simp add: api_result_def mutation_done_def failure_response_def ok_def or_default_def
      empty_object_def caller_catch_def message_def cancel_msg_def request_failed_msg_def)

text \<open>
  Claim C4, as the code has it. A click on OK resolves the confirmation with the passcode
  field and the note field trimmed: each field is its trimmed value between two runs of white
  space, and a non-empty trimmed passcode neither starts nor ends with white space. Nothing is
  checked here, so an empty passcode is passed on as it is, and the note of the value is
  always a string, empty when the field is blank. What the three callers send: the create
  request carries \<^verbatim>\<open>null\<close> for an empty note and the note otherwise; the update
  request carries the event's existing note for an empty one; the delete request carries the
  passcode in its URL, and when the passcode is not well-formed no request is sent and the
  engine's message is alerted.
\<close>

theorem submit_trims_passcode_and_note:
  assumes "modalOk_onclick s = Some k"
  shows "modalOk_click s =
           (fst (modal_resolved k (confirmation_of s) (cleanup s)),
            CloseModal # snd (modal_resolved k (confirmation_of s) (cleanup s)))
       \<and> confirmation_of s =
           \<lparr>passcode = trim (modalPass_value s), note_text = trim (modalNote_value s)\<rparr>
       \<and> (\<exists>l r. modalPass_value s = l @ trim (modalPass_value s) @ r
              \<and> list_all is_white_space l \<and> list_all is_white_space r)
       \<and> (trim (modalPass_value s) = []
            \<or> (\<not> is_white_space (hd (trim (modalPass_value s)))
                \<and> \<not> is_white_space (last (trim (modalPass_value s)))))
       \<and> (\<exists>l r. modalNote_value s = l @ trim (modalNote_value s) @ r
              \<and> list_all is_white_space l \<and> list_all is_white_space r)
       \<and> (k = AddCont title selInfo \<longrightarrow>
            snd (modalOk_click s) =
              [CloseModal,
               Fetch (api_request (token s) EventsPath
                 \<lparr>opt_method = Some POST,
                  opt_body = Some (CreateBody title (startStr selInfo) (endStr selInfo)
                    (allDay selInfo)
                    (if trim (modalNote_value s) = [] then None
                     else Some (trim (modalNote_value s)))
                    (trim (modalPass_value s)))\<rparr>)])
       \<and> (k = DeleteCont ev \<longrightarrow>
            snd (modalOk_click s) =
              (if well_formed (trim (modalPass_value s)) then
                 [CloseModal,
                  Fetch (api_request (token s)
                    (EventPasscodePath (ev_id ev) (trim (modalPass_value s)))
                    \<lparr>opt_method = Some DELETE, opt_body = None\<rparr>)]
               else [CloseModal, Alert (EngineText URIMalformed)]))
       \<and> (k = EditCont ev newTitle \<longrightarrow>
            snd (modalOk_click s) =
              [CloseModal,
               Fetch (api_request (token s) (EventPath (ev_id ev))
                 \<lparr>opt_method = Some PUT,
                  opt_body = Some (UpdateBody newTitle
                    (if trim (modalNote_value s) \<noteq> [] then Some (trim (modalNote_value s))
                     else if truthy (ev_note ev) then ev_note ev else None)
                    (trim (modalPass_value s)))\<rparr>)])"
proof -
  note ok = modalOk_click_Some [OF assms]
  have 0: "confirmation_of s =
           \<lparr>passcode = trim (modalPass_value s), note_text = trim (modalNote_value s)\<rparr>"
    by (simp add: confirmation_of_def)
  have 1: "modalOk_click s =
           (fst (modal_resolved k (confirmation_of s) (cleanup s)),
            CloseModal # snd (modal_resolved k (confirmation_of s) (cleanup s)))"
    by (simp only: 0 ok)
  have 2: "\<exists>l r. modalPass_value s = l @ trim (modalPass_value s) @ r
              \<and> list_all is_white_space l \<and> list_all is_white_space r"
    by (rule trim_decomp)
  have 3: "trim (modalPass_value s) = []
            \<or> (\<not> is_white_space (hd (trim (modalPass_value s)))
                \<and> \<not> is_white_space (last (trim (modalPass_value s))))"
    by (rule trim_ends)
  have 4: "\<exists>l r. modalNote_value s = l @ trim (modalNote_value s) @ r
              \<and> list_all is_white_space l \<and> list_all is_white_space r"
    by (rule trim_decomp)
  have 5: "k = AddCont title selInfo \<longrightarrow>
            snd (modalOk_click s) =
              [CloseModal,
               Fetch (api_request (token s) EventsPath
                 \<lparr>opt_method = Some POST,
                  opt_body = Some (CreateBody title (startStr selInfo) (endStr selInfo)
                    (allDay selInfo)
                    (if trim (modalNote_value s) = [] then None
                     else Some (trim (modalNote_value s)))
                    (trim (modalPass_value s)))\<rparr>)]"
    by (simp add: ok modal_resolved_Add token_cleanup)
  have 6: "k = DeleteCont ev \<longrightarrow>
            snd (modalOk_click s) =
              (if well_formed (trim (modalPass_value s)) then
                 [CloseModal,
                  Fetch (api_request (token s)
                    (EventPasscodePath (ev_id ev) (trim (modalPass_value s)))
                    \<lparr>opt_method = Some DELETE, opt_body = None\<rparr>)]
               else [CloseModal, Alert (EngineText URIMalformed)])"
    by (simp add: ok modal_resolved_Delete token_cleanup)
  have 7: "k = EditCont ev newTitle \<longrightarrow>
            snd (modalOk_click s) =
              [CloseModal,
               Fetch (api_request (token s) (EventPath (ev_id ev))
                 \<lparr>opt_method = Some PUT,
                  opt_body = Some (UpdateBody newTitle
                    (if trim (modalNote_value s) \<noteq> [] then Some (trim (modalNote_value s))
                     else if truthy (ev_note ev) then ev_note ev else None)
                    (trim (modalPass_value s)))\<rparr>)]"
    by (simp add: ok modal_resolved_Edit token_cleanup)
  show ?thesis by (intro conjI 0 1 2 3 4 5 6 7)
qed

theorem submit_trims_passcode_and_note_witness:
  "modalOk_onclick (confirming_add\<lparr>modalPass_value := padded_secret,
       modalNote_value := [0x20, 0x3000]\<rparr>) = Some (AddCont lunch one_day)
   \<and> snd (modalOk_click (confirming_add\<lparr>modalPass_value := padded_secret,
       modalNote_value := [0x20, 0x3000]\<rparr>)) =
       [CloseModal,
        Fetch \<lparr>req_path = EventsPath,
               req_options = \<lparr>opt_method = Some POST,
                 opt_body = Some (CreateBody lunch day1 day2 True None secret)\<rparr>,
               req_headers = \<lparr>Authorization = Some (bearer_prefix @ tok1),
                 Content_Type_json = True\<rparr>\<rparr>]
   \<and> snd (modalOk_click (confirming_add\<lparr>modalPass_value := [0x20],
       modalNote_value := []\<rparr>)) =
       [CloseModal,
        Fetch \<lparr>req_path = EventsPath,
               req_options = \<lparr>opt_method = Some POST,
                 opt_body = Some (CreateBody lunch day1 day2 True None [])\<rparr>,
               req_headers = \<lparr>Authorization = Some (bearer_prefix @ tok1),
                 Content_Type_json = True\<rparr>\<rparr>]
   \<and> modalOk_onclick confirming_delete_ill_formed = Some (DeleteCont alice_event)
   \<and> snd (modalOk_click confirming_delete_ill_formed) =
       [CloseModal, Alert (EngineText URIMalformed)]"
proof -
  have 1: "modalOk_onclick (confirming_add\<lparr>modalPass_value := padded_secret,
       modalNote_value := [0x20, 0x3000]\<rparr>) = Some (AddCont lunch one_day)"
    by (simp add: confirming_add_eq)
  have 2: "modalOk_onclick (confirming_add\<lparr>modalPass_value := [0x20],
       modalNote_value := []\<rparr>) = Some (AddCont lunch one_day)"
    by (simp add: confirming_add_eq)
  have 3: "modalOk_onclick confirming_delete_ill_formed = Some (DeleteCont alice_event)"
    by (simp add: confirming_delete_ill_formed_eq)
  have t: "token confirming_add = Some tok1" by (simp add: confirming_add_eq alice_online_eq)
  have v: "modalPass_value confirming_delete_ill_formed = lone_surrogate_passcode"
    by (simp add: confirming_delete_ill_formed_eq)
  note a = submit_trims_passcode_and_note [OF 1, THEN conjunct2, THEN conjunct2,
      THEN conjunct2, THEN conjunct2, THEN conjunct2, THEN conjunct1, THEN mp, OF refl]
  note b = submit_trims_passcode_and_note [OF 2, THEN conjunct2, THEN conjunct2,
      THEN conjunct2, THEN conjunct2, THEN conjunct2, THEN conjunct1, THEN mp, OF refl]
  note c = submit_trims_passcode_and_note [OF 3, THEN conjunct2, THEN conjunct2,
      THEN conjunct2, THEN conjunct2, THEN conjunct2, THEN conjunct2, THEN conjunct1,
      THEN mp, OF refl]
  show ?thesis
    using 1 3 a b c
    by (simp add: t v trim_examples well_formed_examples api_request_def auth_header_def
        one_day_def tok1_def)
qed

text \<open>
  Against claim C4 as stated: for a blank note field the value returned carries the empty
  string, where the specification's has no note; in the edit flow the blank note is sent as
  the event's existing note; and in the delete flow a passcode that is not well-formed is
  stopped here, with an alert and no request.
\<close>

theorem blank_note_is_not_absent:
  "as_pending (confirmation_of confirming_edit) = \<lparr>pc_passcode = secret, pc_note = Some []\<rparr>
   \<and> spec_request_result (modalPass_value confirming_edit) (modalNote_value confirming_edit)
       = \<lparr>pc_passcode = secret, pc_note = None\<rparr>
   \<and> snd (modalOk_click confirming_edit) =
       [CloseModal,
        Fetch \<lparr>req_path = EventPath [0x37],
               req_options = \<lparr>opt_method = Some PUT,
                 opt_body = Some (UpdateBody lunch (Some old_note) secret)\<rparr>,
               req_headers = \<lparr>Authorization = Some (bearer_prefix @ tok1),
                 Content_Type_json = True\<rparr>\<rparr>]
   \<and> trim lone_surrogate_passcode = lone_surrogate_passcode
   \<and> snd (modalOk_click confirming_delete_ill_formed) =
       [CloseModal, Alert (EngineText URIMalformed)]"
proof -
  have h: "modalOk_onclick confirming_edit = Some (EditCont alice_event lunch)"
    by (simp add: confirming_edit_eq)
  have v: "modalPass_value confirming_edit = padded_secret"
      "modalNote_value confirming_edit = [0x20, 0x3000]" "token confirming_edit = Some tok1"
    by (simp_all add: confirming_edit_eq alice_online_eq)
  have e: "ev_id alice_event = [0x37]" "ev_note alice_event = Some old_note"
    by (simp_all add: alice_event_def)
  have h': "modalOk_onclick confirming_delete_ill_formed = Some (DeleteCont alice_event)"
    by (simp add: confirming_delete_ill_formed_eq)
  have v': "modalPass_value confirming_delete_ill_formed = lone_surrogate_passcode"
    by (simp add: confirming_delete_ill_formed_eq)
  have 1: "as_pending (confirmation_of confirming_edit)
      = \<lparr>pc_passcode = secret, pc_note = Some []\<rparr>"
    by (simp add: as_pending_def confirmation_of_def v trim_examples)
  have 2: "spec_request_result (modalPass_value confirming_edit)
      (modalNote_value confirming_edit) = \<lparr>pc_passcode = secret, pc_note = None\<rparr>"
    by (simp add: spec_request_result_def v trim_examples)
  have 3: "snd (modalOk_click confirming_edit) =
       [CloseModal,
        Fetch \<lparr>req_path = EventPath [0x37],
               req_options = \<lparr>opt_method = Some PUT,
                 opt_body = Some (UpdateBody lunch (Some old_note) secret)\<rparr>,
               req_headers = \<lparr>Authorization = Some (bearer_prefix @ tok1),
                 Content_Type_json = True\<rparr>\<rparr>]"
    by (simp add: modalOk_click_Some [OF h] modal_resolved_Edit token_cleanup v e
        trim_examples api_request_def auth_header_def truthy_def old_note_def tok1_def)
  have 4: "snd (modalOk_click confirming_delete_ill_formed) =
       [CloseModal, Alert (EngineText URIMalformed)]"
    by (simp add: modalOk_click_Some [OF h'] modal_resolved_Delete v' trim_examples
        well_formed_examples)
  show ?thesis by (intro conjI 1 2 3 4 trim_examples(7))
qed

text \<open>
  Claim C5. \<^verbatim>\<open>showModal\<close> overwrites both click handlers, so the handlers of a
  confirmation that was still open are gone: whatever they were, the page behaves from then
  on, for every sequence of inputs, as if they had never been installed, and only the new
  request can be resolved or rejected. The first click on OK or Cancel removes the handlers
  again.
\<close>

theorem new_request_supersedes_stale:
  "modalOk_onclick (fst (showModal sp k s)) = Some k
   \<and> modalCancel_onclick (fst (showModal sp k s)) = Some k
   \<and> showModal sp k (s\<lparr>modalOk_onclick := stale_ok, modalCancel_onclick := stale_cancel\<rparr>)
       = showModal sp k s
   \<and> run (fst (showModal sp k
              (s\<lparr>modalOk_onclick := stale_ok, modalCancel_onclick := stale_cancel\<rparr>))) evs
       = run (fst (showModal sp k s)) evs
   \<and> modalOk_onclick (fst (modalOk_click (fst (showModal sp k s)))) = None
   \<and> modalCancel_onclick (fst (modalOk_click (fst (showModal sp k s)))) = None
   \<and> modalOk_onclick (fst (modalCancel_click (fst (showModal sp k s)))) = None
   \<and> modalCancel_onclick (fst (modalCancel_click (fst (showModal sp k s)))) = None"
proof -
  have eq: "showModal sp k (s\<lparr>modalOk_onclick := stale_ok, modalCancel_onclick := stale_cancel\<rparr>)
       = showModal sp k s"
    by (simp add: showModal_def)
  have ok: "modalOk_onclick (fst (showModal sp k s)) = Some k"
    and cn: "modalCancel_onclick (fst (showModal sp k s)) = Some k"
    by (simp_all add: showModal_def)
  note a = modalOk_click_clears [OF ok]
  note b = modalCancel_click_clears [OF cn]
  show ?thesis
    by (intro conjI ok cn eq arg_cong [where f = "\<lambda>x. run (fst x) evs"]
        a [THEN conjunct1] a [THEN conjunct2] b [THEN conjunct1] b [THEN conjunct2])
qed

theorem new_request_supersedes_stale_witness:
  "modalOk_onclick confirming_add = Some (AddCont lunch one_day)
   \<and> modalOk_onclick (fst (showModal
         \<lparr>m_title = Some delete_modal_title, m_foot = Some delete_modal_foot, withNote = False\<rparr>
         (DeleteCont alice_event) confirming_add)) = Some (DeleteCont alice_event)
   \<and> modalCancel_onclick (fst (showModal
         \<lparr>m_title = Some delete_modal_title, m_foot = Some delete_modal_foot, withNote = False\<rparr>
         (DeleteCont alice_event) confirming_add)) = Some (DeleteCont alice_event)
   \<and> snd (modalOk_click (fst (showModal
         \<lparr>m_title = Some delete_modal_title, m_foot = Some delete_modal_foot, withNote = False\<rparr>
         (DeleteCont alice_event) confirming_add))) =
       [CloseModal,
        Fetch \<lparr>req_path = EventPasscodePath [0x37] [],
               req_options = \<lparr>opt_method = Some DELETE, opt_body = None\<rparr>,
               req_headers = \<lparr>Authorization = Some (bearer_prefix @ tok1),
                 Content_Type_json = False\<rparr>\<rparr>]"
proof -
  have 1: "modalOk_onclick confirming_add = Some (AddCont lunch one_day)"
    by (simp add: confirming_add_eq)
  have 2: "token (fst (showModal
         \<lparr>m_title = Some delete_modal_title, m_foot = Some delete_modal_foot, withNote = False\<rparr>
         (DeleteCont alice_event) confirming_add)) = Some tok1"
    by (simp add: showModal_def confirming_add_eq alice_online_eq)
  have 3: "modalPass_value (fst (showModal
         \<lparr>m_title = Some delete_modal_title, m_foot = Some delete_modal_foot, withNote = False\<rparr>
         (DeleteCont alice_event) confirming_add)) = []"
    by (simp add: showModal_def)
  note n = new_request_supersedes_stale [of
      "\<lparr>m_title = Some delete_modal_title, m_foot = Some delete_modal_foot, withNote = False\<rparr>"
      "DeleteCont alice_event" confirming_add]
  note ok = n [THEN conjunct1]
  have e: "ev_id alice_event = [0x37]" by (simp add: alice_event_def)
  show ?thesis
    using 1 n [THEN conjunct2, THEN conjunct1]
    by (simp add: ok modalOk_click_Some [OF ok] modal_resolved_Delete token_cleanup 2 3 e
        api_request_def auth_header_def tok1_def trim_def)
qed

text \<open>
  Claim C6, as the code has it. For a response whose status is not between 200 and 299,
  \<^verbatim>\<open>api\<close> throws a plain \<^verbatim>\<open>Error\<close>. Its message is the
  \<^verbatim>\<open>detail\<close> of the body, unchanged, when that is a non-empty string, and the fixed
  request-failed text when the body is not JSON or has no or an empty \<^verbatim>\<open>detail\<close>.
  The status is not looked at beyond that: another failing status gives the same error, and
  no failure kind is derived.
\<close>

theorem failed_response_throws_detail:
  assumes "\<not> ok res"
  shows "api_result (Response res) =
           Inl (Error (case json res of None \<Rightarrow> request_failed_msg
                       | Some b \<Rightarrow> or_default (detail b) request_failed_msg))
       \<and> (json res = Some b \<and> detail b = Some d \<and> d \<noteq> [] \<longrightarrow>
            api_result (Response res) = Inl (Error d))
       \<and> (json res = None \<or> (json res = Some b \<and> (detail b = None \<or> detail b = Some [])) \<longrightarrow>
            api_result (Response res) = Inl (Error request_failed_msg))
       \<and> (\<not> ok (res\<lparr>status := st\<rparr>) \<longrightarrow>
            api_result (Response (res\<lparr>status := st\<rparr>)) = api_result (Response res))"
proof -
  note f = api_result_failed [OF assms]
  have 2: "json res = Some b \<and> detail b = Some d \<and> d \<noteq> [] \<longrightarrow>
            api_result (Response res) = Inl (Error d)"
    by (simp add: f or_default_def)
  have 3: "json res = None \<or> (json res = Some b \<and> (detail b = None \<or> detail b = Some [])) \<longrightarrow>
            api_result (Response res) = Inl (Error request_failed_msg)"
    by (auto simp: f or_default_def)
  have 4: "\<not> ok (res\<lparr>status := st\<rparr>) \<longrightarrow>
            api_result (Response (res\<lparr>status := st\<rparr>)) = api_result (Response res)"
    by (simp add: f api_result_failed)
  show ?thesis by (intro conjI f 2 3 4)
qed

theorem failed_response_throws_detail_witness:
  "\<not> ok (failure_response 403 (Some bad_passcode_detail))
   \<and> api_result (Response (failure_response 403 (Some bad_passcode_detail)))
       = Inl (Error bad_passcode_detail)"
proof -
  have 1: "\<not> ok (failure_response 403 (Some bad_passcode_detail))"
    by (simp add: ok_def failure_response_def)
  show ?thesis
    using 1 failed_response_throws_detail [OF 1, THEN conjunct1]
    by (simp add: failure_response_def or_default_def bad_passcode_detail_def)
qed

text \<open>
  Against claim C6 as stated: an unauthorized and a not-found response with the same
  \<^verbatim>\<open>detail\<close> throw the same error, though the specification gives them different
  kinds, and so do a forbidden and a server-error response; without a \<^verbatim>\<open>detail\<close>
  the message is the fixed text, not the field.
\<close>

theorem failure_kind_not_classified:
  "api_result (Response (failure_response 401 (Some bad_passcode_detail)))
     = api_result (Response (failure_response 404 (Some bad_passcode_detail)))
   \<and> spec_failure_kind 401 \<noteq> spec_failure_kind 404
   \<and> api_result (Response (failure_response 403 None)) = Inl (Error request_failed_msg)
   \<and> api_result (Response (failure_response 500 None)) = Inl (Error request_failed_msg)
   \<and> spec_failure_kind 403 \<noteq> spec_failure_kind 500"
  by (simp add: api_result_def failure_response_def ok_def or_default_def empty_object_def
      spec_failure_kind_def bad_passcode_detail_def)

text \<open>
  Claim C7, as the code has it. A failed login shows one alert and changes nothing else.
  For a response without success the text is the \<^verbatim>\<open>detail\<close> the Gateway sent when
  that is a non-empty string, and the fixed request-failed text otherwise; when
  \<^verbatim>\<open>fetch\<close> itself fails it is the engine's own text. The client adds and removes
  nothing else: two failed responses are shown alike exactly when these texts are the same.
\<close>

theorem failed_login_alerts_gateway_message:
  "(api_result out = Inl e \<longrightarrow> login_done out s = (s, [Alert (message e)]))
   \<and> login_done NetworkFailure s = (s, [Alert (EngineText FetchRejected)])
   \<and> (\<not> ok res \<longrightarrow>
        login_done (Response res) s =
          (s, [Alert (Lit (case json res of None \<Rightarrow> request_failed_msg
                           | Some b \<Rightarrow> or_default (detail b) request_failed_msg))]))
   \<and> (\<not> ok res \<and> \<not> ok res' \<longrightarrow>
        (login_done (Response res) s = login_done (Response res') s) =
          ((case json res of None \<Rightarrow> request_failed_msg
            | Some b \<Rightarrow> or_default (detail b) request_failed_msg) =
           (case json res' of None \<Rightarrow> request_failed_msg
            | Some b \<Rightarrow> or_default (detail b) request_failed_msg)))"
proof -
  have a: "\<And>r. \<not> ok r \<Longrightarrow> login_done (Response r) s =
           (s, [Alert (Lit (case json r of None \<Rightarrow> request_failed_msg
                            | Some b \<Rightarrow> or_default (detail b) request_failed_msg))])"
    by (simp add: login_done_def api_result_failed message_def)
  have 1: "api_result out = Inl e \<longrightarrow> login_done out s = (s, [Alert (message e)])"
    by (simp add: login_done_def)
  have 2: "login_done NetworkFailure s = (s, [Alert (EngineText FetchRejected)])"
    by (simp add: login_done_def api_result_def message_def)
  have 3: "\<not> ok res \<longrightarrow>
        login_done (Response res) s =
          (s, [Alert (Lit (case json res of None \<Rightarrow> request_failed_msg
                           | Some b \<Rightarrow> or_default (detail b) request_failed_msg))])"
    by (simp add: a)
  have 4: "\<not> ok res \<and> \<not> ok res' \<longrightarrow>
        (login_done (Response res) s = login_done (Response res') s) =
          ((case json res of None \<Rightarrow> request_failed_msg
            | Some b \<Rightarrow> or_default (detail b) request_failed_msg) =
           (case json res' of None \<Rightarrow> request_failed_msg
            | Some b \<Rightarrow> or_default (detail b) request_failed_msg))"
    by (simp add: a)
  show ?thesis by (intro conjI 1 2 3 4)
qed

theorem failed_login_alerts_gateway_message_witness:
  "\<not> ok (failure_response 401 None)
   \<and> \<not> ok (failure_response 401 (Some []))
   \<and> login_done (Response (failure_response 401 None)) init_state
       = (init_state, [Alert (Lit request_failed_msg)])
   \<and> login_done (Response (failure_response 401 (Some []))) init_state
       = login_done (Response (failure_response 401 None)) init_state
   \<and> api_result NetworkFailure = Inl (EngineError FetchRejected)
   \<and> login_done NetworkFailure init_state = (init_state, [Alert (EngineText FetchRejected)])"
proof -
  have 1: "\<not> ok (failure_response 401 None)" "\<not> ok (failure_response 401 (Some []))"
    by (simp_all add: ok_def failure_response_def)
  have 2: "api_result NetworkFailure = Inl (EngineError FetchRejected)"
    by (simp add: api_result_def)
  note t = failed_login_alerts_gateway_message
      [where res = "failure_response 401 None" and res' = "failure_response 401 (Some [])"
         and s = init_state and out = NetworkFailure and e = "EngineError FetchRejected"]
  have 3: "login_done (Response (failure_response 401 None)) init_state
       = (init_state, [Alert (Lit request_failed_msg)])"
    using t [THEN conjunct2, THEN conjunct2, THEN conjunct1, THEN mp, OF 1(1)]
    by (simp add: failure_response_def or_default_def empty_object_def)
  have 4: "login_done (Response (failure_response 401 (Some []))) init_state
       = login_done (Response (failure_response 401 None)) init_state"
    using t [THEN conjunct2, THEN conjunct2, THEN conjunct2, THEN mp, OF conjI [OF 1]]
    by (simp add: failure_response_def or_default_def empty_object_def)
  have 5: "login_done NetworkFailure init_state = (init_state, [Alert (EngineText FetchRejected)])"
    by (rule t [THEN conjunct2, THEN conjunct1])
  show ?thesis by (intro conjI 1 2 3 4 5)
qed

text \<open>
  Against claim C7 as stated: when the Gateway words the two failures differently, the
  human is shown the two different texts.
\<close>

theorem failed_logins_distinguishable:
  "login_done (Response (failure_response 401 (Some unknown_user_detail))) init_state
     = (init_state, [Alert (Lit unknown_user_detail)])
   \<and> login_done (Response (failure_response 401 (Some bad_passcode_detail))) init_state
     = (init_state, [Alert (Lit bad_passcode_detail)])
   \<and> unknown_user_detail \<noteq> bad_passcode_detail"
  by (simp add: login_done_def api_result_def failure_response_def ok_def or_default_def
      empty_object_def message_def unknown_user_detail_def bad_passcode_detail_def)




text \<open>
  Claim C9, as the code has it. The logout handler clears the token and \<^verbatim>\<open>me\<close>
  whatever the state, destroys the calendar instance the variable \<^verbatim>\<open>calendar\<close>
  holds, when it holds one, and sets the variable to \<^verbatim>\<open>null\<close>. A second logout
  changes nothing and does nothing, any number of logouts in a row leave the state of the
  first, and a logout without a session leaves the session as it is. The instance destroyed
  is live no more and asks for no date range any more. The requests in flight are left as
  they are: the answer to a date-range request sent before the logout is still handed to the
  instance that asked.
\<close>

theorem logout_clears_session_idempotent:
  "token (fst (logoutBtn_onclick s)) = None
   \<and> me (fst (logoutBtn_onclick s)) = None
   \<and> calendar (fst (logoutBtn_onclick s)) = None
   \<and> snd (logoutBtn_onclick s) =
       (case calendar s of None \<Rightarrow> [] | Some c \<Rightarrow> [CalendarDestroy c])
   \<and> live (fst (logoutBtn_onclick s)) =
       (case calendar s of None \<Rightarrow> live s | Some c \<Rightarrow> removeAll c (live s))
   \<and> inflight (fst (logoutBtn_onclick s)) = inflight s
   \<and> logoutBtn_onclick (fst (logoutBtn_onclick s)) = (fst (logoutBtn_onclick s), [])
   \<and> fst (run s (replicate (Suc n) LogoutClick)) = fst (logoutBtn_onclick s)
   \<and> snd (run s (replicate (Suc n) LogoutClick)) = snd (logoutBtn_onclick s)
   \<and> (token s = None \<and> me s = None \<and> calendar s = None \<longrightarrow>
        token (fst (logoutBtn_onclick s)) = token s
        \<and> me (fst (logoutBtn_onclick s)) = me s
        \<and> calendar (fst (logoutBtn_onclick s)) = calendar s
        \<and> live (fst (logoutBtn_onclick s)) = live s
        \<and> snd (logoutBtn_onclick s) = [])
   \<and> (calendar s = Some c \<longrightarrow>
        c \<notin> set (live (fst (logoutBtn_onclick s)))
        \<and> step (fst (logoutBtn_onclick s)) (CalendarEvents c start_str end_str)
            = (fst (logoutBtn_onclick s), []))
   \<and> (i < length (inflight s) \<and> inflight s ! i = EventsK c' \<longrightarrow>
        snd (step (fst (logoutBtn_onclick s)) (FetchSettled i out)) =
          (case api_result out of
             Inl e \<Rightarrow> [FeedFailure c' e]
           | Inr d \<Rightarrow> [FeedSuccess c' d]))"
proof -
  have r: "fst (run s (replicate (Suc n) LogoutClick)) = fst (logoutBtn_onclick s)"
       "snd (run s (replicate (Suc n) LogoutClick)) = snd (logoutBtn_onclick s)"
    using run_logouts [of s n] by (simp_all add: step_def case_prod_beta)
  have tm: "token (fst (logoutBtn_onclick s)) = None" "me (fst (logoutBtn_onclick s)) = None"
      "calendar (fst (logoutBtn_onclick s)) = None"
    by (simp_all add: logout_state)
  have lv: "live (fst (logoutBtn_onclick s)) =
       (case calendar s of None \<Rightarrow> live s | Some c \<Rightarrow> removeAll c (live s))"
    by (simp add: logout_state)
  have fl: "inflight (fst (logoutBtn_onclick s)) = inflight s"
    by (simp add: logout_state)
  have off: "token s = None \<and> me s = None \<and> calendar s = None \<longrightarrow>
        token (fst (logoutBtn_onclick s)) = token s
        \<and> me (fst (logoutBtn_onclick s)) = me s
        \<and> calendar (fst (logoutBtn_onclick s)) = calendar s
        \<and> live (fst (logoutBtn_onclick s)) = live s
        \<and> snd (logoutBtn_onclick s) = []"
    by (simp add: logout_state logout_effects)
  have gone: "calendar s = Some c \<longrightarrow>
        c \<notin> set (live (fst (logoutBtn_onclick s)))
        \<and> step (fst (logoutBtn_onclick s)) (CalendarEvents c start_str end_str)
            = (fst (logoutBtn_onclick s), [])"
    by (simp add: lv step_def)
  have late: "i < length (inflight s) \<and> inflight s ! i = EventsK c' \<longrightarrow>
        snd (step (fst (logoutBtn_onclick s)) (FetchSettled i out)) =
          (case api_result out of
             Inl e \<Rightarrow> [FeedFailure c' e]
           | Inr d \<Rightarrow> [FeedSuccess c' d])"
    by (simp add: step_def settle_def fl events_done_def split: sum.splits)
  show ?thesis by (intro conjI tm logout_effects lv fl logout_twice r off gone late)
qed

theorem logout_clears_session_idempotent_witness:
  "token alice_online = Some tok1
   \<and> calendar alice_online = Some 0
   \<and> token (fst (logoutBtn_onclick alice_online)) = None
   \<and> me (fst (logoutBtn_onclick alice_online)) = None
   \<and> live (fst (logoutBtn_onclick alice_online)) = []
   \<and> snd (run alice_online [LogoutClick, LogoutClick, LogoutClick]) = [CalendarDestroy 0]
   \<and> snd (run alice_online [LogoutClick, CalendarEvents 0 day1 day2]) = [CalendarDestroy 0]
   \<and> token init_state = None \<and> me init_state = None \<and> calendar init_state = None
   \<and> snd (logoutBtn_onclick init_state) = []"
proof -
  have 1: "token alice_online = Some tok1" "calendar alice_online = Some 0"
      "live alice_online = [0]"
    by (simp_all add: alice_online_eq)
  have 2: "replicate (Suc 2) LogoutClick = [LogoutClick, LogoutClick, LogoutClick]"
    by (simp add: numeral_2_eq_2)
  have 3: "token init_state = None \<and> me init_state = None \<and> calendar init_state = None"
    by (simp add: init_state_def)
  show ?thesis
    using 1 3
      logout_clears_session_idempotent
        [where s = alice_online and n = 2 and c = 0 and start_str = day1 and end_str = day2
           and i = 0 and c' = 0 and out = NetworkFailure]
      logout_clears_session_idempotent
        [where s = init_state and n = 0 and c = 0 and start_str = day1 and end_str = day2
           and i = 0 and c' = 0 and out = NetworkFailure]
    by (simp add: 2 step_def case_prod_beta)
qed

text \<open>
  Against claim C9 as stated: the answer to a date-range request that was in flight at the
  logout is still handed to the calendar after it; and after a login button clicked twice,
  the instance of the first answer, which the logout does not destroy, goes on asking.
\<close>

theorem queries_survive_logout:
  "snd (run alice_online
          [CalendarEvents 0 day1 day2, LogoutClick, FetchSettled 0 (Response events_response)]) =
     [Fetch \<lparr>req_path = EventsRangePath day1 day2,
             req_options = \<lparr>opt_method = None, opt_body = None\<rparr>,
             req_headers = \<lparr>Authorization = Some (bearer_prefix @ tok1),
               Content_Type_json = False\<rparr>\<rparr>,
      CalendarDestroy 0,
      FeedSuccess 0 empty_object]
   \<and> token logged_out_after_double_login = None
   \<and> me logged_out_after_double_login = None
   \<and> calendar logged_out_after_double_login = None
   \<and> snd (step logged_out_after_double_login (CalendarEvents 0 day1 day2)) =
     [Fetch \<lparr>req_path = EventsRangePath day1 day2,
             req_options = \<lparr>opt_method = None, opt_body = None\<rparr>,
             req_headers = \<lparr>Authorization = None, Content_Type_json = False\<rparr>\<rparr>]"
proof -
  have a: "step alice_online (CalendarEvents 0 day1 day2) =
      (alice_online\<lparr>inflight := [EventsK 0]\<rparr>,
       [Fetch \<lparr>req_path = EventsRangePath day1 day2,
             req_options = \<lparr>opt_method = None, opt_body = None\<rparr>,
             req_headers = \<lparr>Authorization = Some (bearer_prefix @ tok1),
               Content_Type_json = False\<rparr>\<rparr>])"
    by (simp add: alice_online_eq step_def events_def well_formed_examples api_def
        api_request_def auth_header_def tok1_def)
  have b: "step (alice_online\<lparr>inflight := [EventsK 0]\<rparr>) LogoutClick =
      (fst (logoutBtn_onclick (alice_online\<lparr>inflight := [EventsK 0]\<rparr>)), [CalendarDestroy 0])"
    by (simp add: step_def prod_eq_iff logout_effects alice_online_eq)
  have c: "snd (step (fst (logoutBtn_onclick (alice_online\<lparr>inflight := [EventsK 0]\<rparr>)))
        (FetchSettled 0 (Response events_response))) = [FeedSuccess 0 empty_object]"
    by (simp add: step_def settle_def logout_state events_done_def api_result_def
        events_response_def ok_def)
  have 1: "snd (run alice_online
          [CalendarEvents 0 day1 day2, LogoutClick, FetchSettled 0 (Response events_response)]) =
     [Fetch \<lparr>req_path = EventsRangePath day1 day2,
             req_options = \<lparr>opt_method = None, opt_body = None\<rparr>,
             req_headers = \<lparr>Authorization = Some (bearer_prefix @ tok1),
               Content_Type_json = False\<rparr>\<rparr>,
      CalendarDestroy 0,
      FeedSuccess 0 empty_object]"
    by (simp add: a b c case_prod_beta)
  have 2: "token logged_out_after_double_login = None" "me logged_out_after_double_login = None"
      "calendar logged_out_after_double_login = None"
    by (simp_all add: logged_out_after_double_login_eq init_state_def)
  have 3: "snd (step logged_out_after_double_login (CalendarEvents 0 day1 day2)) =
     [Fetch \<lparr>req_path = EventsRangePath day1 day2,
             req_options = \<lparr>opt_method = None, opt_body = None\<rparr>,
             req_headers = \<lparr>Authorization = None, Content_Type_json = False\<rparr>\<rparr>]"
    by (simp add: logged_out_after_double_login_eq init_state_def step_def events_def
        well_formed_examples api_def api_request_def auth_header_def)
  show ?thesis by (intro conjI 1 2 3)
qed




end
